theory Spec2Isabelle
  imports Main
begin

section \<open>Python strings\<close>

text \<open>
  A Python \<open>str\<close> is a sequence of Unicode code points and \<open>len\<close> counts code points,
  so a character is modelled by its code point and a string by the list of them.
  \<open>lit\<close> embeds an ASCII literal of the source.
\<close>

type_synonym pychar = nat
type_synonym pystr = "pychar list"

definition lit :: "string \<Rightarrow> pystr" where
  "lit s = map (of_char :: char \<Rightarrow> nat) s"

text \<open>
  \<open>str.isspace\<close> on one code point, the test \<open>str.strip()\<close> applies: U+0009..U+000D,
  U+001C..U+0020, U+0085, U+00A0, U+1680, U+2000..U+200A, U+2028, U+2029, U+202F,
  U+205F and U+3000.
\<close>

definition isspace :: "pychar \<Rightarrow> bool" where
  "isspace c =
     ((9 \<le> c \<and> c \<le> 13) \<or> (28 \<le> c \<and> c \<le> 32) \<or> c = 133 \<or> c = 160 \<or> c = 5760
      \<or> (8192 \<le> c \<and> c \<le> 8202) \<or> c = 8232 \<or> c = 8233 \<or> c = 8239 \<or> c = 8287
      \<or> c = 12288)"

definition lstrip :: "pystr \<Rightarrow> pystr" where
  "lstrip s = dropWhile isspace s"

definition rstrip :: "pystr \<Rightarrow> pystr" where
  "rstrip s = rev (dropWhile isspace (rev s))"

text \<open>\<open>s.strip()\<close>: the left index moves right over whitespace, then the right one left.\<close>

definition strip :: "pystr \<Rightarrow> pystr" where
  "strip s = rstrip (lstrip s)"

text \<open>\<open>s.replace(old, new)\<close> for a pattern \<open>old\<close> of one character.\<close>

definition str_replace :: "pystr \<Rightarrow> pychar \<Rightarrow> pystr \<Rightarrow> pystr" where
  "str_replace s old new = concat (map (\<lambda>c. if c = old then new else [c]) s)"

text \<open>
  \<open>s.split(sep)\<close> for a separator of one character: a left-to-right scan that closes the
  current piece at every occurrence of the separator, keeping empty pieces.
\<close>

fun split_scan :: "pychar \<Rightarrow> pystr \<Rightarrow> pystr \<Rightarrow> pystr list" where
  "split_scan sep cur [] = [cur]"
| "split_scan sep cur (c # cs) =
     (if c = sep then cur # split_scan sep [] cs else split_scan sep (cur @ [c]) cs)"

definition str_split :: "pystr \<Rightarrow> pychar \<Rightarrow> pystr list" where
  "str_split s sep = split_scan sep [] s"

text \<open>The character class \<open>[,\n]\<close> of the pattern in \<open>make_list\<close>.\<close>

definition comma_or_newline :: "pychar \<Rightarrow> bool" where
  "comma_or_newline c = (c = 44 \<or> c = 10)"

text \<open>
  \<open>re.split(r"[,\n]+", s)\<close>: the engine looks for the next match, which is a maximal run
  of class characters (\<open>+\<close> is greedy), closes the piece before it and goes on after it;
  the rest of the string is the last piece.
\<close>

function re_split_scan :: "pystr \<Rightarrow> pystr \<Rightarrow> pystr list" where
  "re_split_scan cur [] = [cur]"
| "re_split_scan cur (c # cs) =
     (if comma_or_newline c then cur # re_split_scan [] (dropWhile comma_or_newline cs)
      else re_split_scan (cur @ [c]) cs)"
  by pat_completeness auto
termination
  by (relation "measure (\<lambda>(cur, s). length s)")
     (auto simp: length_dropWhile_le less_Suc_eq_le)

definition re_split_commas_newlines :: "pystr \<Rightarrow> pystr list" where
  "re_split_commas_newlines s = re_split_scan [] s"

section \<open>make_list\<close>

text \<open>
  The argument is \<open>None\<close> for Python's \<open>None\<close>: \<open>if not text\<close> covers both it and the
  empty string.
\<close>

definition make_list :: "pystr option \<Rightarrow> bool \<Rightarrow> pystr list" where
  "make_list text prefer_newline =
     (case text of
        None \<Rightarrow> []
      | Some t \<Rightarrow>
          if t = [] then []
          else
            let text = strip (str_replace t 13 []);
                parts =
                  (if prefer_newline \<and> 10 \<in> set text
                   then map strip (str_split text 10)
                   else map strip (re_split_commas_newlines text));
                clean_parts = filter (\<lambda>p. p \<noteq> [] \<and> length p > 1) parts
            in clean_parts)"

text \<open>
  The description of the splitting stage in the words of the specification, to be
  compared with the scans above: every separator character is a split point, and a run
  of separators is first collapsed to a single one.
\<close>

fun spec_split_at :: "(pychar \<Rightarrow> bool) \<Rightarrow> pystr \<Rightarrow> pystr list" where
  "spec_split_at P [] = [[]]"
| "spec_split_at P (c # cs) =
     (if P c then [] # spec_split_at P cs
      else (c # hd (spec_split_at P cs)) # tl (spec_split_at P cs))"

fun spec_collapse_runs :: "(pychar \<Rightarrow> bool) \<Rightarrow> pystr \<Rightarrow> pystr" where
  "spec_collapse_runs P [] = []"
| "spec_collapse_runs P [c] = [c]"
| "spec_collapse_runs P (c # d # cs) =
     (if P c \<and> P d then spec_collapse_runs P (d # cs) else c # spec_collapse_runs P (d # cs))"

text \<open>
  Trimming in the words of the specification, written without the operations of the
  model above: the whitespace characters are listed one by one, leading ones are dropped
  from the front, and a trailing one is dropped when nothing but whitespace follows it.
\<close>

definition spec_whitespace :: "pychar list" where
  "spec_whitespace =
     [9, 10, 11, 12, 13, 28, 29, 30, 31, 32, 133, 160, 5760,
      8192, 8193, 8194, 8195, 8196, 8197, 8198, 8199, 8200, 8201, 8202,
      8232, 8233, 8239, 8287, 12288]"

fun spec_trim_left :: "pystr \<Rightarrow> pystr" where
  "spec_trim_left [] = []"
| "spec_trim_left (c # cs) = (if c \<in> set spec_whitespace then spec_trim_left cs else c # cs)"

fun spec_trim_right :: "pystr \<Rightarrow> pystr" where
  "spec_trim_right [] = []"
| "spec_trim_right (c # cs) =
     (if spec_trim_right cs = [] \<and> c \<in> set spec_whitespace then []
      else c # spec_trim_right cs)"

definition spec_trim :: "pystr \<Rightarrow> pystr" where
  "spec_trim s = spec_trim_right (spec_trim_left s)"

text \<open>
  The pieces before the post-filter: carriage returns (13) removed, the text trimmed;
  with the flag set and a line break (10) left in the text, one trimmed piece per line;
  otherwise the text cut at the runs of commas (44) and line breaks, each piece trimmed.
\<close>

definition spec_pieces :: "pystr \<Rightarrow> bool \<Rightarrow> pystr list" where
  "spec_pieces rawText preferLineSplit =
     (let t = spec_trim (filter (\<lambda>c. c \<noteq> 13) rawText)
      in if preferLineSplit \<and> 10 \<in> set t
         then map spec_trim (spec_split_at (\<lambda>c. c = 10) t)
         else map spec_trim
                (spec_split_at (\<lambda>c. c = 44 \<or> c = 10)
                   (spec_collapse_runs (\<lambda>c. c = 44 \<or> c = 10) t)))"

section \<open>slugify\<close>

text \<open>
  \<open>\w\<close> in a \<open>str\<close> pattern matches the underscore and every code point that
  \<open>str.isalnum\<close> accepts. Below 128 these are the ASCII letters and digits. For the
  code points from 128 on the answer is a table of the Unicode database of the Python
  runtime, which is taken as the parameter \<open>uni_alnum\<close>.
\<close>

definition ascii_alnum :: "pychar \<Rightarrow> bool" where
  "ascii_alnum c = ((48 \<le> c \<and> c \<le> 57) \<or> (65 \<le> c \<and> c \<le> 90) \<or> (97 \<le> c \<and> c \<le> 122))"

definition word_char :: "(pychar \<Rightarrow> bool) \<Rightarrow> pychar \<Rightarrow> bool" where
  "word_char uni_alnum c = (c = 95 \<or> (if c < 128 then ascii_alnum c else uni_alnum c))"

text \<open>The class \<open>[^-\w.]\<close>: anything but a hyphen, a word character or a period.\<close>

definition slug_reject :: "(pychar \<Rightarrow> bool) \<Rightarrow> pychar \<Rightarrow> bool" where
  "slug_reject uni_alnum c = (\<not> (c = 45 \<or> word_char uni_alnum c \<or> c = 46))"

text \<open>\<open>re.sub(r"(?u)[^-\w.]", "", s)\<close>: every match is one character, replaced by nothing.\<close>

fun re_sub_scan :: "(pychar \<Rightarrow> bool) \<Rightarrow> pystr \<Rightarrow> pystr" where
  "re_sub_scan uni_alnum [] = []"
| "re_sub_scan uni_alnum (c # cs) =
     (if slug_reject uni_alnum c then re_sub_scan uni_alnum cs
      else c # re_sub_scan uni_alnum cs)"

definition slugify :: "(pychar \<Rightarrow> bool) \<Rightarrow> pystr \<Rightarrow> pystr" where
  "slugify uni_alnum text =
     (let text = str_replace (strip text) 32 [95];
          text = re_sub_scan uni_alnum text
      in if text \<noteq> [] then text else lit ''portfolio'')"

text \<open>
  A table for examples: it knows the letters U+00C0..U+00FF of the Latin-1 supplement
  (all of that range but the signs U+00D7 and U+00F7) and nothing else.
\<close>

definition latin1_letters :: "pychar \<Rightarrow> bool" where
  "latin1_letters c = (192 \<le> c \<and> c \<le> 255 \<and> c \<noteq> 215 \<and> c \<noteq> 247)"

section \<open>generate\<close>

text \<open>The submitted form; \<open>request.form.get(key, default)\<close>.\<close>

type_synonym form = "pystr \<rightharpoonup> pystr"

definition form_get :: "form \<Rightarrow> pystr \<Rightarrow> pystr \<Rightarrow> pystr" where
  "form_get f key dflt = (case f key of None \<Rightarrow> dflt | Some v \<Rightarrow> v)"

record data =
  name :: pystr
  email :: pystr
  phone :: pystr
  linkedin :: pystr
  github :: pystr
  website :: pystr
  about :: pystr
  skills :: "pystr list"
  education :: pystr
  projects :: "pystr list"
  certifications :: "pystr list"
  achievements :: "pystr list"
  interests :: "pystr list"

definition generate_data :: "form \<Rightarrow> data" where
  "generate_data f =
     \<lparr> name = strip (form_get f (lit ''name'') []),
       email = strip (form_get f (lit ''email'') []),
       phone = strip (form_get f (lit ''phone'') []),
       linkedin = strip (form_get f (lit ''linkedin'') []),
       github = strip (form_get f (lit ''github'') []),
       website = strip (form_get f (lit ''website'') []),
       about = strip (form_get f (lit ''about'') []),
       skills = make_list (Some (form_get f (lit ''skills'') [])) True,
       education = strip (form_get f (lit ''education'') []),
       projects = make_list (Some (form_get f (lit ''projects'') [])) True,
       certifications = make_list (Some (form_get f (lit ''certifications'') [])) True,
       achievements = make_list (Some (form_get f (lit ''achievements'') [])) True,
       interests = make_list (Some (form_get f (lit ''interests'') [])) True \<rparr>"

definition generate_filename :: "(pychar \<Rightarrow> bool) \<Rightarrow> data \<Rightarrow> pystr" where
  "generate_filename uni_alnum d =
     slugify uni_alnum (if name d \<noteq> [] then name d else lit ''portfolio'') @ lit ''.pdf''"

text \<open>
  The flowables handed to the layout engine: a paragraph with one of the three styles of
  the source, the one-cell table that draws the divider line, and a spacer.
\<close>

datatype para_style = title_style | heading_style | normal

datatype flowable = Paragraph pystr para_style | Divider | Spacer nat nat

text \<open>
  \<open>Paragraph(text, style)\<close> parses its text as markup when the paragraph is built and
  raises \<open>ValueError\<close> on a text it cannot parse; the source hands it the user's text as it
  is. The parser belongs to the layout library, not to this repository: its verdict on a
  text is the parameter \<open>accepts\<close>.
\<close>

datatype error = ValueError

definition new_Paragraph :: "(pystr \<Rightarrow> bool) \<Rightarrow> pystr \<Rightarrow> para_style \<Rightarrow> error + flowable" where
  "new_Paragraph accepts text style =
     (if accepts text then Inr (Paragraph text style) else Inl ValueError)"

text \<open>
  \<open>elements.append(x)\<close>, where building \<open>x\<close> may have raised: after an exception
  nothing more is appended, and the exception is the outcome.
\<close>

definition append_new :: "error + flowable list \<Rightarrow> error + flowable \<Rightarrow> error + flowable list" where
  "append_new elements x =
     (case elements of
        Inl e \<Rightarrow> Inl e
      | Inr es \<Rightarrow> (case x of Inl e \<Rightarrow> Inl e | Inr b \<Rightarrow> Inr (es @ [b])))"

text \<open>\<open>sep.join(xs)\<close>.\<close>

fun join :: "pystr \<Rightarrow> pystr list \<Rightarrow> pystr" where
  "join sep [] = []"
| "join sep [x] = x"
| "join sep (x # y # ys) = x @ sep @ join sep (y # ys)"

definition contact_parts :: "data \<Rightarrow> pystr list" where
  "contact_parts d =
     (let contact_parts = [];
          contact_parts =
            (if email d \<noteq> [] then contact_parts @ [lit ''Email: '' @ email d]
             else contact_parts);
          contact_parts =
            (if phone d \<noteq> [] then contact_parts @ [lit ''Phone: '' @ phone d]
             else contact_parts);
          contact_parts =
            (if linkedin d \<noteq> [] then contact_parts @ [lit ''LinkedIn: '' @ linkedin d]
             else contact_parts);
          contact_parts =
            (if github d \<noteq> [] then contact_parts @ [lit ''GitHub: '' @ github d]
             else contact_parts);
          contact_parts =
            (if website d \<noteq> [] then contact_parts @ [lit ''Website: '' @ website d]
             else contact_parts)
      in contact_parts)"

text \<open>The bullet glyph U+2022 and a space, the prefix of \<open>f"\<bullet> {skill}"\<close>.\<close>

definition bullet :: pystr where
  "bullet = [8226, 32]"

text \<open>
  The block the source repeats for each of its five list sections: one paragraph per item
  when the list is non-empty, the placeholder otherwise.
\<close>

definition append_items ::
  "(pystr \<Rightarrow> bool) \<Rightarrow> error + flowable list \<Rightarrow> pystr list \<Rightarrow> error + flowable list" where
  "append_items accepts elements items =
     (if items \<noteq> []
      then foldl (\<lambda>elements item.
                    append_new elements (new_Paragraph accepts (bullet @ item) normal))
             elements items
      else append_new elements (new_Paragraph accepts (lit ''-'') normal))"

text \<open>Lines 108 to 184 of the source: the list \<open>elements\<close>, or the exception raised on the way.\<close>

definition generate_elements :: "(pystr \<Rightarrow> bool) \<Rightarrow> data \<Rightarrow> error + flowable list" where
  "generate_elements accepts d =
     (let elements = Inr [];
          elements = append_new elements
            (new_Paragraph accepts (if name d \<noteq> [] then name d else lit ''Your Name'')
               title_style);
          elements =
            (if contact_parts d \<noteq> []
             then append_new elements
                    (new_Paragraph accepts (join (lit '' | '') (contact_parts d)) normal)
             else elements);
          elements = append_new elements (Inr Divider);
          elements = append_new elements (Inr (Spacer 1 8));
          elements = append_new elements
            (new_Paragraph accepts (lit ''About Me'') heading_style);
          elements = append_new elements
            (new_Paragraph accepts (if about d \<noteq> [] then about d else lit ''-'') normal);
          elements = append_new elements
            (new_Paragraph accepts (lit ''Skills'') heading_style);
          elements = append_items accepts elements (skills d);
          elements = append_new elements
            (new_Paragraph accepts (lit ''Education'') heading_style);
          elements = append_new elements
            (new_Paragraph accepts (if education d \<noteq> [] then education d else lit ''-'')
               normal);
          elements = append_new elements
            (new_Paragraph accepts (lit ''Projects'') heading_style);
          elements = append_items accepts elements (projects d);
          elements = append_new elements
            (new_Paragraph accepts (lit ''Certifications'') heading_style);
          elements = append_items accepts elements (certifications d);
          elements = append_new elements
            (new_Paragraph accepts (lit ''Achievements'') heading_style);
          elements = append_items accepts elements (achievements d);
          elements = append_new elements
            (new_Paragraph accepts (lit ''Interests'') heading_style);
          elements = append_items accepts elements (interests d)
      in elements)"

text \<open>
  A parser for the examples. It accepts a text that holds no \<open><\<close> (60) and refuses every
  other; it stands for the library on plain text and on \<open>"<b>bold"\<close>, whose tag is never
  closed.
\<close>

definition plain_text_only :: "pystr \<Rightarrow> bool" where
  "plain_text_only t = (60 \<notin> set t)"

text \<open>A section heading is a paragraph in the heading style.\<close>

fun is_section_heading :: "flowable \<Rightarrow> bool" where
  "is_section_heading (Paragraph t st) = (st = heading_style)"
| "is_section_heading b = False"

text \<open>The texts a block hands to the parser: its own for a paragraph, none otherwise.\<close>

fun paragraph_text :: "flowable \<Rightarrow> pystr list" where
  "paragraph_text (Paragraph t st) = [t]"
| "paragraph_text b = []"

text \<open>
  The document in the words of the specification, written without the operations of the
  model above. A scalar section is its heading and one body paragraph with the text or
  \<open>"-"\<close>; a list section is its heading and one paragraph per entry, the bullet glyph
  (8226), a space and the entry, or the single paragraph \<open>"-"\<close>.
\<close>

definition spec_scalar_section :: "string \<Rightarrow> pystr \<Rightarrow> flowable list" where
  "spec_scalar_section heading t =
     [Paragraph (lit heading) heading_style,
      Paragraph (if t = [] then lit ''-'' else t) normal]"

definition spec_list_section :: "string \<Rightarrow> pystr list \<Rightarrow> flowable list" where
  "spec_list_section heading entries =
     Paragraph (lit heading) heading_style #
       (if entries = [] then [Paragraph (lit ''-'') normal]
        else map (\<lambda>e. Paragraph ([8226, 32] @ e) normal) entries)"

text \<open>
  The contact fields with their labels, in the order of the specification; the line joins
  the present ones with \<open>" | "\<close> (32, 124, 32) between two neighbours, and there is no line
  when none is present.
\<close>

definition spec_contact_fields :: "data \<Rightarrow> (string \<times> pystr) list" where
  "spec_contact_fields d =
     [(''Email: '', email d), (''Phone: '', phone d), (''LinkedIn: '', linkedin d),
      (''GitHub: '', github d), (''Website: '', website d)]"

definition spec_join :: "pystr \<Rightarrow> pystr list \<Rightarrow> pystr" where
  "spec_join sep xs =
     (case xs of [] \<Rightarrow> [] | x # rest \<Rightarrow> x @ concat (map (\<lambda>y. sep @ y) rest))"

definition spec_contact_line :: "data \<Rightarrow> flowable list" where
  "spec_contact_line d =
     (let present = filter (\<lambda>(label, v). v \<noteq> []) (spec_contact_fields d)
      in if present = [] then []
         else [Paragraph (spec_join [32, 124, 32] (map (\<lambda>(label, v). lit label @ v) present))
                 normal])"

definition spec_blocks :: "data \<Rightarrow> flowable list" where
  "spec_blocks d =
     [Paragraph (if name d = [] then lit ''Your Name'' else name d) title_style]
     @ spec_contact_line d
     @ [Divider, Spacer 1 8]
     @ spec_scalar_section ''About Me'' (about d)
     @ spec_list_section ''Skills'' (skills d)
     @ spec_scalar_section ''Education'' (education d)
     @ spec_list_section ''Projects'' (projects d)
     @ spec_list_section ''Certifications'' (certifications d)
     @ spec_list_section ''Achievements'' (achievements d)
     @ spec_list_section ''Interests'' (interests d)"

text \<open>A block list as the constructors leave it: whole, or the exception of a refused text.\<close>

definition spec_emit :: "(pystr \<Rightarrow> bool) \<Rightarrow> flowable list \<Rightarrow> error + flowable list" where
  "spec_emit accepts bs =
     (if list_all accepts (concat (map paragraph_text bs)) then Inr bs else Inl ValueError)"


definition lists_form_example :: form where
  "lists_form_example =
     [lit ''name'' \<mapsto> lit ''Jane Doe'', lit ''about'' \<mapsto> lit '' Hi there '',
      lit ''skills'' \<mapsto> lit ''Python'' @ [13, 10] @ lit ''Go'' @ [10, 10] @ lit ''C'',
      lit ''projects'' \<mapsto> lit ''P1, P2'']"

section \<open>download\<close>

text \<open>
  Storage maps a path to what is there. \<open>os.path.join\<close> for two components, and
  \<open>os.path.exists\<close> as a lookup.
\<close>

datatype node = File "nat list" | Directory

type_synonym storage = "pystr \<rightharpoonup> node"

definition OUTPUT_DIR :: pystr where
  "OUTPUT_DIR = lit ''generated_portfolios''"

definition os_path_join :: "pystr \<Rightarrow> pystr \<Rightarrow> pystr" where
  "os_path_join a b =
     (if b \<noteq> [] \<and> hd b = 47 then b
      else if a = [] \<or> last a = 47 then a @ b
      else a @ [47] @ b)"

definition os_path_exists :: "storage \<Rightarrow> pystr \<Rightarrow> bool" where
  "os_path_exists st p = (st p \<noteq> None)"

text \<open>
  \<open>send_file(filepath, as_attachment=True)\<close> is the framework's: how it resolves the
  path, names the attachment and fails is not decided in this repository. It is a
  parameter that reads the storage, and the handler passes its answer on as it is.
\<close>

datatype 'r response = Text_response pystr nat | Sent 'r

text \<open>The handler returns its response and the storage it leaves behind.\<close>

definition download ::
  "(storage \<Rightarrow> pystr \<Rightarrow> 'r) \<Rightarrow> storage \<Rightarrow> pystr \<Rightarrow> 'r response \<times> storage" where
  "download send_file st filename =
     (let filepath = os_path_join OUTPUT_DIR filename
      in if \<not> os_path_exists st filepath then (Text_response (lit ''File not found.'') 404, st)
         else (Sent (send_file st filepath), st))"

section \<open>Properties of the string operations\<close>

lemmas py_eval =
  lit_def strip_def lstrip_def rstrip_def isspace_def str_replace_def str_split_def
  re_split_commas_newlines_def comma_or_newline_def

lemma strip_hd: "strip s \<noteq> [] \<Longrightarrow> \<not> isspace (hd (strip s))"
proof -
  assume ne: "strip s \<noteq> []"
  define u where "u = dropWhile isspace s"
  define r where "r = dropWhile isspace (rev u)"
  have sr: "strip s = rev r"
    by (simp add: strip_def lstrip_def rstrip_def u_def r_def)
  with ne have rne: "r \<noteq> []" by simp
  obtain pre where pre: "rev u = pre @ r"
    unfolding r_def by (metis takeWhile_dropWhile_id)
  from rne pre have une: "u \<noteq> []" by auto
  have "last r = last (rev u)" using pre rne by simp
  also have "\<dots> = hd u" using une by (simp add: last_rev)
  finally have "hd (rev r) = hd u" using rne by (simp add: hd_rev)
  moreover have "\<not> isspace (hd u)" using une unfolding u_def by (rule hd_dropWhile)
  ultimately show ?thesis using sr by simp
qed

lemma strip_last: "strip s \<noteq> [] \<Longrightarrow> \<not> isspace (last (strip s))"
proof -
  assume ne: "strip s \<noteq> []"
  define r where "r = dropWhile isspace (rev (dropWhile isspace s))"
  have sr: "strip s = rev r"
    by (simp add: strip_def lstrip_def rstrip_def r_def)
  with ne have rne: "r \<noteq> []" by simp
  have "\<not> isspace (hd r)" using rne unfolding r_def by (rule hd_dropWhile)
  then show ?thesis using sr rne by (simp add: last_rev)
qed

lemma str_replace_delete: "str_replace s old [] = filter (\<lambda>c. c \<noteq> old) s"
  by (induction s) (simp_all add: str_replace_def)

lemma spec_split_at_nonempty: "spec_split_at P s \<noteq> []"
  by (induction s) simp_all

lemma split_scan_spec:
  "split_scan sep cur s =
     (cur @ hd (spec_split_at (\<lambda>c. c = sep) s)) # tl (spec_split_at (\<lambda>c. c = sep) s)"
proof (induction s arbitrary: cur)
  case Nil
  show ?case by simp
next
  case (Cons a s)
  show ?case
    using Cons [of "[]"] Cons [of "cur @ [a]"] spec_split_at_nonempty [of "\<lambda>c. c = sep" s]
    by simp
qed

lemma collapse_sep_head:
  "P c \<Longrightarrow> spec_split_at P (spec_collapse_runs P (c # cs)) =
     [] # spec_split_at P (spec_collapse_runs P (dropWhile P cs))"
  by (induction cs arbitrary: c) simp_all

lemma collapse_other_head:
  "\<not> P c \<Longrightarrow> spec_collapse_runs P (c # cs) = c # spec_collapse_runs P cs"
  by (cases cs) simp_all

lemma re_split_scan_spec:
  "re_split_scan cur s =
     (cur @ hd (spec_split_at comma_or_newline (spec_collapse_runs comma_or_newline s)))
       # tl (spec_split_at comma_or_newline (spec_collapse_runs comma_or_newline s))"
proof (induction cur s rule: re_split_scan.induct)
  case (1 cur)
  show ?case by simp
next
  case (2 cur c cs)
  show ?case
  proof (cases "comma_or_newline c")
    case True
    then show ?thesis
      using 2(1) spec_split_at_nonempty [of comma_or_newline]
      by (simp add: collapse_sep_head del: spec_collapse_runs.simps)
  next
    case False
    then show ?thesis
      using 2(2) by (simp add: collapse_other_head del: spec_collapse_runs.simps)
  qed
qed

lemma str_split_spec: "str_split s sep = spec_split_at (\<lambda>c. c = sep) s"
  using spec_split_at_nonempty [of "\<lambda>c. c = sep" s]
  by (simp add: str_split_def split_scan_spec)

lemma re_split_spec:
  "re_split_commas_newlines s =
     spec_split_at comma_or_newline (spec_collapse_runs comma_or_newline s)"
  using spec_split_at_nonempty [of comma_or_newline "spec_collapse_runs comma_or_newline s"]
  by (simp add: re_split_commas_newlines_def re_split_scan_spec)

lemma clean_filter:
  "(\<lambda>p::pystr. p \<noteq> [] \<and> Suc 0 < length p) = (\<lambda>p. 2 \<le> length p)"
  by auto

lemma range_9_13:
  "(9 \<le> c \<and> c \<le> 13) = (c = 9 \<or> c = 10 \<or> c = 11 \<or> c = 12 \<or> (c::nat) = 13)"
  by arith

lemma range_28_32:
  "(28 \<le> c \<and> c \<le> 32) = (c = 28 \<or> c = 29 \<or> c = 30 \<or> c = 31 \<or> (c::nat) = 32)"
  by arith

lemma range_8192_8202:
  "(8192 \<le> c \<and> c \<le> 8202) =
     (c = 8192 \<or> c = 8193 \<or> c = 8194 \<or> c = 8195 \<or> c = 8196 \<or> c = 8197 \<or> c = 8198
      \<or> c = 8199 \<or> c = 8200 \<or> c = 8201 \<or> (c::nat) = 8202)"
  by arith

lemma isspace_spec_whitespace: "isspace c = (c \<in> set spec_whitespace)"
  unfolding isspace_def spec_whitespace_def range_9_13 range_28_32 range_8192_8202
  by (simp only: list.set insert_iff empty_iff) blast

lemma lstrip_spec: "lstrip s = spec_trim_left s"
  by (induction s) (simp_all add: lstrip_def isspace_spec_whitespace)

lemma rstrip_Nil_iff: "(rstrip s = []) = (\<forall>c \<in> set s. isspace c)"
  by (simp add: rstrip_def)

lemma rstrip_Cons:
  "rstrip (c # cs) = (if rstrip cs = [] \<and> isspace c then [] else c # rstrip cs)"
proof (cases "\<forall>x \<in> set cs. isspace x")
  case True
  then have "rstrip cs = []" by (simp add: rstrip_Nil_iff)
  with True show ?thesis
    by (simp add: rstrip_def dropWhile_append)
next
  case False
  then have "rstrip cs \<noteq> []" by (simp add: rstrip_Nil_iff)
  with False show ?thesis
    by (simp add: rstrip_def dropWhile_append)
qed

lemma rstrip_spec: "rstrip s = spec_trim_right s"
proof (induction s)
  case Nil
  show ?case by (simp add: rstrip_def)
next
  case (Cons c cs)
  show ?case
    using Cons by (simp add: rstrip_Cons isspace_spec_whitespace)
qed

lemma strip_spec: "strip = spec_trim"
  by (simp add: fun_eq_iff strip_def spec_trim_def lstrip_spec rstrip_spec)

lemma comma_or_newline_spec: "comma_or_newline = (\<lambda>c. c = 44 \<or> c = 10)"
  by (simp add: fun_eq_iff comma_or_newline_def)

lemma make_list_subset:
  "set (make_list raw prefer) \<subseteq> {p. \<exists>q. p = strip q \<and> 2 \<le> length p}"
  by (cases raw) (auto simp: make_list_def Let_def)

section \<open>Claims about make_list\<close>

text \<open>
  C1. Whatever the text (absent, empty or not) and whatever the flag, every item that
  \<open>make_list\<close> returns has at least two characters, and neither its first nor its last
  character is whitespace. So no empty and no one-character item survives.
\<close>

theorem make_list_items:
  "\<forall>p \<in> set (make_list raw prefer).
     2 \<le> length p \<and> \<not> isspace (hd p) \<and> \<not> isspace (last p)"
proof
  fix p assume "p \<in> set (make_list raw prefer)"
  then obtain q where q: "p = strip q" "2 \<le> length p"
    using make_list_subset by blast
  then have "strip q \<noteq> []" by auto
  with q show "2 \<le> length p \<and> \<not> isspace (hd p) \<and> \<not> isspace (last p)"
    using strip_hd strip_last by simp
qed

theorem make_list_items_witness:
  "make_list (Some (lit '' a, bc ,Go'')) False = [lit ''bc'', lit ''Go'']
   \<and> 2 \<le> length (lit ''bc'') \<and> \<not> isspace (hd (lit ''bc'')) \<and> \<not> isspace (last (lit ''bc''))"
proof -
  have run: "make_list (Some (lit '' a, bc ,Go'')) False = [lit ''bc'', lit ''Go'']"
    by (simp add: make_list_def py_eval)
  then have "lit ''bc'' \<in> set (make_list (Some (lit '' a, bc ,Go'')) False)"
    by simp
  with make_list_items [of "Some (lit '' a, bc ,Go'')" False] run show ?thesis
    by blast
qed

text \<open>
  C2. For a non-empty text, \<open>make_list\<close> is the post-filter applied to the pieces the
  specification describes (\<open>spec_pieces\<close>, which uses none of the operations of the
  model): carriage returns removed and the text trimmed; then, when the flag is set and a
  line break is left in the text, one piece per line, each trimmed; otherwise the text
  cut at every run of commas and line breaks, a run counting as one split point.
\<close>

theorem make_list_refines:
  "t \<noteq> [] \<Longrightarrow>
   make_list (Some t) prefer = filter (\<lambda>p. 2 \<le> length p) (spec_pieces t prefer)"
  by (simp add: make_list_def spec_pieces_def Let_def str_replace_delete str_split_spec
      re_split_spec clean_filter strip_spec comma_or_newline_spec)

theorem make_list_refines_witness:
  "make_list
      (Some (lit ''  Python '' @ [10] @ lit '' Go'' @ [13, 10, 10] @ lit ''  Rust, C  '')) True
     = [lit ''Python'', lit ''Go'', lit ''Rust, C'']
   \<and> filter (\<lambda>p. 2 \<le> length p)
        (spec_pieces
           (lit ''  Python '' @ [10] @ lit '' Go'' @ [13, 10, 10] @ lit ''  Rust, C  '') True)
     = [lit ''Python'', lit ''Go'', lit ''Rust, C'']
   \<and> make_list
        (Some (lit '' Data Analytics ,'' @ [10] @ lit '', Web Development'' @ [10]
               @ lit ''Go ,x'')) False
     = [lit ''Data Analytics'', lit ''Web Development'', lit ''Go'']
   \<and> filter (\<lambda>p. 2 \<le> length p)
        (spec_pieces
           (lit '' Data Analytics ,'' @ [10] @ lit '', Web Development'' @ [10]
            @ lit ''Go ,x'') False)
     = [lit ''Data Analytics'', lit ''Web Development'', lit ''Go'']"
proof -
  have ne1: "lit ''  Python '' @ [10] @ lit '' Go'' @ [13, 10, 10] @ lit ''  Rust, C  '' \<noteq> []"
    by (simp add: lit_def)
  have run1:
    "make_list
       (Some (lit ''  Python '' @ [10] @ lit '' Go'' @ [13, 10, 10] @ lit ''  Rust, C  '')) True
     = [lit ''Python'', lit ''Go'', lit ''Rust, C'']"
    by (simp add: make_list_def py_eval)
  have ne2:
    "lit '' Data Analytics ,'' @ [10] @ lit '', Web Development'' @ [10] @ lit ''Go ,x'' \<noteq> []"
    by (simp add: lit_def)
  have run2:
    "make_list
       (Some (lit '' Data Analytics ,'' @ [10] @ lit '', Web Development'' @ [10]
              @ lit ''Go ,x'')) False
     = [lit ''Data Analytics'', lit ''Web Development'', lit ''Go'']"
    by (simp add: make_list_def py_eval)
  show ?thesis
    using run1 run2 make_list_refines [OF ne1, of True] make_list_refines [OF ne2, of False]
    by simp
qed

text \<open>
  C8. Absent input (\<open>None\<close>) and the empty string both give the empty list. The function
  has no failing branch: its result is a plain list for every input.
\<close>

theorem make_list_empty_input:
  "make_list None prefer = [] \<and> make_list (Some []) prefer = []"
  by (simp add: make_list_def)

text \<open>
  C9. \<open>make_list("Data Analytics, Web Development", False)\<close> is the list of the two
  items \<open>"Data Analytics"\<close> and \<open>"Web Development"\<close>: the comma splits, the spaces
  inside an item stay.
\<close>

theorem make_list_data_analytics:
  "make_list (Some (lit ''Data Analytics, Web Development'')) False
     = [lit ''Data Analytics'', lit ''Web Development'']"
  by (simp add: make_list_def py_eval)

section \<open>Claims about slugify\<close>

lemmas slug_eval = slugify_def slug_reject_def word_char_def ascii_alnum_def

lemma re_sub_scan_filter: "re_sub_scan U s = filter (\<lambda>c. \<not> slug_reject U c) s"
  by (induction s) simp_all

lemma str_replace_single:
  "str_replace s old [new] = map (\<lambda>c. if c = old then new else c) s"
  by (induction s) (simp_all add: str_replace_def)

lemma slug_keep_unfold:
  "(\<not> slug_reject U c) = (word_char U c \<or> c = 45 \<or> c = 95 \<or> c = 46)"
  by (auto simp: slug_reject_def word_char_def)

lemma strip_no_space: "\<forall>c \<in> set r. \<not> isspace c \<Longrightarrow> strip r = r"
proof -
  assume a: "\<forall>c \<in> set r. \<not> isspace c"
  have l: "dropWhile isspace r = r"
    using a by (cases r) simp_all
  have "\<forall>c \<in> set (rev r). \<not> isspace c" using a by simp
  then have "dropWhile isspace (rev r) = rev r"
    by (cases "rev r") simp_all
  with l show ?thesis by (simp add: strip_def lstrip_def rstrip_def)
qed

lemma slugify_portfolio: "slugify U (lit ''portfolio'') = lit ''portfolio''"
  by (simp add: slug_eval py_eval)

lemma space_not_kept_ascii:
  "isspace c \<Longrightarrow> c \<noteq> 45 \<and> c \<noteq> 46 \<and> c \<noteq> 95 \<and> \<not> ascii_alnum c"
  unfolding isspace_def ascii_alnum_def by arith

lemma isspace_32: "isspace 32"
  by (simp add: isspace_def)

lemma kept_not_space:
  assumes tab: "\<forall>c. isspace c \<longrightarrow> \<not> U c" and k: "\<not> slug_reject U c"
  shows "\<not> isspace c"
proof
  assume sp: "isspace c"
  with tab have nu: "\<not> U c" by blast
  from sp have "c \<noteq> 45 \<and> c \<noteq> 46 \<and> c \<noteq> 95 \<and> \<not> ascii_alnum c"
    by (rule space_not_kept_ascii)
  with k nu show False
    by (simp add: slug_reject_def word_char_def split: if_splits)
qed

lemma latin1_letters_no_space: "\<forall>c. isspace c \<longrightarrow> \<not> latin1_letters c"
  unfolding isspace_def latin1_letters_def by arith

text \<open>
  C4. For every display name and every Unicode table, \<open>slugify\<close> trims the name, turns
  each space into an underscore, keeps exactly the word characters, hyphens, underscores
  and periods, and answers \<open>"portfolio"\<close> when nothing is left. On \<open>"  Jane Doe!! "\<close> the
  result is \<open>"Jane_Doe"\<close>.
\<close>

theorem slugify_spec:
  "slugify U s =
     (let r = filter (\<lambda>c. word_char U c \<or> c = 45 \<or> c = 95 \<or> c = 46)
                (map (\<lambda>c. if c = 32 then 95 else c) (strip s))
      in if r = [] then lit ''portfolio'' else r)
   \<and> slugify U (lit ''  Jane Doe!! '') = lit ''Jane_Doe''"
proof
  show "slugify U s =
     (let r = filter (\<lambda>c. word_char U c \<or> c = 45 \<or> c = 95 \<or> c = 46)
                (map (\<lambda>c. if c = 32 then 95 else c) (strip s))
      in if r = [] then lit ''portfolio'' else r)"
    by (simp add: slugify_def Let_def re_sub_scan_filter str_replace_single slug_keep_unfold)
  show "slugify U (lit ''  Jane Doe!! '') = lit ''Jane_Doe''"
    by (simp add: slug_eval py_eval)
qed

text \<open>
  C10. \<open>slugify\<close> is idempotent: applying it to its own result changes nothing. The
  Unicode table is a parameter of the model, and the proof uses one fact about it, which
  holds of the Unicode database: no whitespace code point is alphanumeric. (A table that
  called a whitespace code point a word character would let the second \<open>strip\<close> remove
  what the first pass kept.)
\<close>

theorem slugify_idempotent:
  assumes tab: "\<forall>c. isspace c \<longrightarrow> \<not> U c"
  shows "slugify U (slugify U s) = slugify U s"
proof -
  define r where "r = re_sub_scan U (str_replace (strip s) 32 [95])"
  have keep: "\<forall>c \<in> set r. \<not> slug_reject U c"
    by (simp add: r_def re_sub_scan_filter)
  show ?thesis
  proof (cases "r = []")
    case True
    then have "slugify U s = lit ''portfolio''"
      by (simp add: slugify_def r_def)
    then show ?thesis by (simp add: slugify_portfolio)
  next
    case False
    then have s1: "slugify U s = r"
      by (simp add: slugify_def r_def)
    have nosp: "\<forall>c \<in> set r. \<not> isspace c"
      using keep kept_not_space [OF tab] by blast
    then have st: "strip r = r" by (rule strip_no_space)
    have "\<forall>c \<in> set r. c \<noteq> 32"
      using nosp isspace_32 by blast
    then have "map (\<lambda>c. if c = 32 then 95 else c) r = r"
      by (induction r) simp_all
    then have rp: "str_replace r 32 [95] = r"
      by (simp add: str_replace_single)
    have sub: "re_sub_scan U r = r"
      using keep by (simp add: re_sub_scan_filter)
    have "slugify U r = r"
      using False by (simp add: slugify_def st rp sub)
    with s1 show ?thesis by simp
  qed
qed

theorem slugify_idempotent_witness:
  "slugify latin1_letters (lit '' Zo'' @ [235, 32, 33] @ lit ''K. '')
       = lit ''Zo'' @ [235, 95] @ lit ''K.''
   \<and> slugify latin1_letters
        (slugify latin1_letters (lit '' Zo'' @ [235, 32, 33] @ lit ''K. ''))
       = lit ''Zo'' @ [235, 95] @ lit ''K.''"
proof -
  have run:
    "slugify latin1_letters (lit '' Zo'' @ [235, 32, 33] @ lit ''K. '')
       = lit ''Zo'' @ [235, 95] @ lit ''K.''"
    by (simp add: slug_eval py_eval latin1_letters_def)
  show ?thesis
    using run
      slugify_idempotent [OF latin1_letters_no_space, of "lit '' Zo'' @ [235, 32, 33] @ lit ''K. ''"]
    by simp
qed

section \<open>Claims about download\<close>

text \<open>
  C5. When the path of the requested file does not exist on storage, the handler answers
  with the text \<open>"File not found."\<close> and status 404, sends no file, and leaves the
  storage exactly as it was, whatever the framework's \<open>send_file\<close> would do.
\<close>

theorem download_not_found:
  "\<not> os_path_exists st (os_path_join OUTPUT_DIR filename) \<Longrightarrow>
   download send_file st filename = (Text_response (lit ''File not found.'') 404, st)"
  by (simp add: download_def Let_def)

theorem download_not_found_witness:
  "\<not> os_path_exists [lit ''generated_portfolios/Jane_Doe.pdf'' \<mapsto> File [37, 80, 68, 70]]
       (os_path_join OUTPUT_DIR (lit ''doesnotexist.pdf''))
   \<and> download (\<lambda>st p. st p)
        [lit ''generated_portfolios/Jane_Doe.pdf'' \<mapsto> File [37, 80, 68, 70]]
        (lit ''doesnotexist.pdf'')
      = (Text_response (lit ''File not found.'') 404,
         [lit ''generated_portfolios/Jane_Doe.pdf'' \<mapsto> File [37, 80, 68, 70]])"
proof -
  have absent:
    "\<not> os_path_exists [lit ''generated_portfolios/Jane_Doe.pdf'' \<mapsto> File [37, 80, 68, 70]]
       (os_path_join OUTPUT_DIR (lit ''doesnotexist.pdf''))"
    by (simp add: os_path_exists_def os_path_join_def OUTPUT_DIR_def lit_def)
  show ?thesis
    using absent download_not_found [OF absent, of "\<lambda>st p. st p"] by simp
qed

section \<open>Claims about the assembled document\<close>

lemma emit_Nil: "Inr [] = spec_emit A []"
  by (simp add: spec_emit_def)

lemma emit_Paragraph:
  "append_new (spec_emit A bs) (new_Paragraph A t st) = spec_emit A (bs @ [Paragraph t st])"
  by (simp add: append_new_def spec_emit_def new_Paragraph_def)

lemma emit_Divider: "append_new (spec_emit A bs) (Inr Divider) = spec_emit A (bs @ [Divider])"
  by (simp add: append_new_def spec_emit_def)

lemma emit_Spacer:
  "append_new (spec_emit A bs) (Inr (Spacer w h)) = spec_emit A (bs @ [Spacer w h])"
  by (simp add: append_new_def spec_emit_def)

lemma emit_if:
  "(if c then spec_emit A xs else spec_emit A ys) = spec_emit A (if c then xs else ys)"
  by simp

lemma emit_foldl:
  "foldl (\<lambda>elements item. append_new elements (new_Paragraph A (f item) st))
     (spec_emit A bs) items
   = spec_emit A (bs @ map (\<lambda>item. Paragraph (f item) st) items)"
  by (induction items arbitrary: bs) (simp_all add: emit_Paragraph)

lemma emit_items:
  "append_items A (spec_emit A bs) items =
     spec_emit A (bs @ (if items = [] then [Paragraph (lit ''-'') normal]
                        else map (\<lambda>e. Paragraph ([8226, 32] @ e) normal) items))"
  by (simp add: append_items_def emit_foldl emit_Paragraph bullet_def)

lemma join_spec: "join sep xs = spec_join sep xs"
  by (induction sep xs rule: join.induct) (simp_all add: spec_join_def)

lemma contact_parts_spec:
  "contact_parts d =
     map (\<lambda>(label, v). lit label @ v) (filter (\<lambda>(label, v). v \<noteq> []) (spec_contact_fields d))"
  by (simp add: contact_parts_def spec_contact_fields_def Let_def)



lemma sep_lit: "lit '' | '' = [32, 124, 32]"
  by (simp add: lit_def)

lemma contact_line_block:
  "(if contact_parts d \<noteq> [] then [Paragraph (join (lit '' | '') (contact_parts d)) normal]
    else []) = spec_contact_line d"
  by (simp add: spec_contact_line_def Let_def contact_parts_spec join_spec sep_lit)

lemma generate_elements_emit: "generate_elements A d = spec_emit A (spec_blocks d)"
proof -
  have "generate_elements A d =
     spec_emit A
      ([Paragraph (if name d \<noteq> [] then name d else lit ''Your Name'') title_style]
       @ (if contact_parts d \<noteq> []
          then [Paragraph (join (lit '' | '') (contact_parts d)) normal] else [])
       @ [Divider, Spacer 1 8]
       @ spec_scalar_section ''About Me'' (about d)
       @ spec_list_section ''Skills'' (skills d)
       @ spec_scalar_section ''Education'' (education d)
       @ spec_list_section ''Projects'' (projects d)
       @ spec_list_section ''Certifications'' (certifications d)
       @ spec_list_section ''Achievements'' (achievements d)
       @ spec_list_section ''Interests'' (interests d))"
    unfolding generate_elements_def Let_def emit_Nil [of A]
    by (simp add: emit_Paragraph emit_Divider emit_Spacer emit_items emit_if
        spec_scalar_section_def spec_list_section_def)
  then show ?thesis
    by (simp add: spec_blocks_def contact_line_block)
qed

lemma headings_scalar:
  "filter is_section_heading (spec_scalar_section h t) = [Paragraph (lit h) heading_style]"
  by (simp add: spec_scalar_section_def)

lemma headings_list:
  "filter is_section_heading (spec_list_section h es) = [Paragraph (lit h) heading_style]"
  by (simp add: spec_list_section_def filter_empty_conv)

lemma headings_contact: "filter is_section_heading (spec_contact_line d) = []"
  by (simp add: spec_contact_line_def Let_def)

lemma spec_blocks_headings:
  "filter is_section_heading (spec_blocks d) =
     map (\<lambda>h. Paragraph (lit h) heading_style)
       [''About Me'', ''Skills'', ''Education'', ''Projects'', ''Certifications'',
        ''Achievements'', ''Interests'']"
  by (simp add: spec_blocks_def headings_scalar headings_list headings_contact)

lemma strip_Nil: "strip [] = []"
  by (simp add: strip_def lstrip_def rstrip_def)

lemma generate_data_empty:
  "generate_data Map.empty =
     \<lparr> name = [], email = [], phone = [], linkedin = [], github = [], website = [],
       about = [], skills = [], education = [], projects = [], certifications = [],
       achievements = [], interests = [] \<rparr>"
  by (simp add: generate_data_def form_get_def strip_Nil make_list_def)

lemma spec_blocks_empty:
  "spec_blocks (generate_data Map.empty) =
     [Paragraph (lit ''Your Name'') title_style, Divider, Spacer 1 8,
      Paragraph (lit ''About Me'') heading_style, Paragraph (lit ''-'') normal,
      Paragraph (lit ''Skills'') heading_style, Paragraph (lit ''-'') normal,
      Paragraph (lit ''Education'') heading_style, Paragraph (lit ''-'') normal,
      Paragraph (lit ''Projects'') heading_style, Paragraph (lit ''-'') normal,
      Paragraph (lit ''Certifications'') heading_style, Paragraph (lit ''-'') normal,
      Paragraph (lit ''Achievements'') heading_style, Paragraph (lit ''-'') normal,
      Paragraph (lit ''Interests'') heading_style, Paragraph (lit ''-'') normal]"
  by (simp add: generate_data_empty spec_blocks_def spec_contact_line_def
      spec_contact_fields_def spec_scalar_section_def spec_list_section_def)

lemma generate_elements_empty:
  "generate_elements A (generate_data Map.empty) =
     (if list_all A
           [lit ''Your Name'', lit ''About Me'', lit ''-'', lit ''Skills'', lit ''-'',
            lit ''Education'', lit ''-'', lit ''Projects'', lit ''-'',
            lit ''Certifications'', lit ''-'', lit ''Achievements'', lit ''-'',
            lit ''Interests'', lit ''-'']
      then Inr [Paragraph (lit ''Your Name'') title_style, Divider, Spacer 1 8,
                Paragraph (lit ''About Me'') heading_style, Paragraph (lit ''-'') normal,
                Paragraph (lit ''Skills'') heading_style, Paragraph (lit ''-'') normal,
                Paragraph (lit ''Education'') heading_style, Paragraph (lit ''-'') normal,
                Paragraph (lit ''Projects'') heading_style, Paragraph (lit ''-'') normal,
                Paragraph (lit ''Certifications'') heading_style, Paragraph (lit ''-'') normal,
                Paragraph (lit ''Achievements'') heading_style, Paragraph (lit ''-'') normal,
                Paragraph (lit ''Interests'') heading_style, Paragraph (lit ''-'') normal]
      else Inl ValueError)"
  unfolding generate_elements_emit spec_blocks_empty spec_emit_def by simp


lemmas doc_eval =
  spec_blocks_def spec_contact_line_def spec_contact_fields_def spec_join_def
  spec_scalar_section_def spec_list_section_def plain_text_only_def lit_def


lemma lists_form_example_data:
  "generate_data lists_form_example =
     \<lparr> name = lit ''Jane Doe'', email = [], phone = [], linkedin = [], github = [],
       website = [], about = lit ''Hi there'', skills = [lit ''Python'', lit ''Go''],
       education = [], projects = [lit ''P1'', lit ''P2''], certifications = [],
       achievements = [], interests = [] \<rparr>"
  by (simp add: generate_data_def lists_form_example_def form_get_def make_list_def py_eval)

text \<open>
  C3, as the code has it. The claim as written fails: the source hands the user's text to
  \<open>Paragraph\<close> as it is, the constructor raises on a text it cannot parse, and then no
  block at all is emitted. What holds: when every text handed to a paragraph is accepted,
  the blocks are, in this order, the title, the contact line when there is one, the
  divider (with the fixed spacer the source puts after it), then the seven sections About
  Me, Skills, Education, Projects, Certifications, Achievements, Interests, each one its
  heading followed, for a list section, by one bullet paragraph per entry or the single
  paragraph \<open>"-"\<close> when the list is empty, and for a scalar section by one paragraph with
  the text or \<open>"-"\<close> when it is empty; when some text is refused the outcome is
  \<open>ValueError\<close>. The headings of that block list are always exactly the seven, and it is
  never empty. The record built from a form holds the trimmed texts and the normalized
  lists, and for the form with no field at all the output, its fixed texts being
  accepted, is the title placeholder, the divider, and every heading with its \<open>"-"\<close>.
\<close>

theorem generate_elements_sections:
  "generate_elements accepts d =
     (if list_all accepts (concat (map paragraph_text (spec_blocks d)))
      then Inr (spec_blocks d) else Inl ValueError)
   \<and> filter is_section_heading (spec_blocks d) =
       map (\<lambda>h. Paragraph (lit h) heading_style)
         [''About Me'', ''Skills'', ''Education'', ''Projects'', ''Certifications'',
          ''Achievements'', ''Interests'']
   \<and> spec_blocks d \<noteq> []
   \<and> about (generate_data f) = strip (form_get f (lit ''about'') [])
   \<and> education (generate_data f) = strip (form_get f (lit ''education'') [])
   \<and> skills (generate_data f) = make_list (Some (form_get f (lit ''skills'') [])) True
   \<and> projects (generate_data f) = make_list (Some (form_get f (lit ''projects'') [])) True
   \<and> certifications (generate_data f)
       = make_list (Some (form_get f (lit ''certifications'') [])) True
   \<and> achievements (generate_data f)
       = make_list (Some (form_get f (lit ''achievements'') [])) True
   \<and> interests (generate_data f) = make_list (Some (form_get f (lit ''interests'') [])) True
   \<and> generate_elements accepts (generate_data Map.empty) =
       (if list_all accepts
             [lit ''Your Name'', lit ''About Me'', lit ''-'', lit ''Skills'', lit ''-'',
              lit ''Education'', lit ''-'', lit ''Projects'', lit ''-'',
              lit ''Certifications'', lit ''-'', lit ''Achievements'', lit ''-'',
              lit ''Interests'', lit ''-'']
        then Inr [Paragraph (lit ''Your Name'') title_style, Divider, Spacer 1 8,
                  Paragraph (lit ''About Me'') heading_style, Paragraph (lit ''-'') normal,
                  Paragraph (lit ''Skills'') heading_style, Paragraph (lit ''-'') normal,
                  Paragraph (lit ''Education'') heading_style, Paragraph (lit ''-'') normal,
                  Paragraph (lit ''Projects'') heading_style, Paragraph (lit ''-'') normal,
                  Paragraph (lit ''Certifications'') heading_style,
                  Paragraph (lit ''-'') normal,
                  Paragraph (lit ''Achievements'') heading_style, Paragraph (lit ''-'') normal,
                  Paragraph (lit ''Interests'') heading_style, Paragraph (lit ''-'') normal]
        else Inl ValueError)"
proof (intro conjI)
  show "generate_elements accepts d =
     (if list_all accepts (concat (map paragraph_text (spec_blocks d)))
      then Inr (spec_blocks d) else Inl ValueError)"
    by (simp add: generate_elements_emit spec_emit_def)
  show "spec_blocks d \<noteq> []"
    by (simp add: spec_blocks_def)
qed (rule spec_blocks_headings generate_elements_empty | simp add: generate_data_def)+

theorem generate_elements_sections_witness:
  "generate_elements plain_text_only (generate_data lists_form_example) =
     Inr [Paragraph (lit ''Jane Doe'') title_style, Divider, Spacer 1 8,
          Paragraph (lit ''About Me'') heading_style, Paragraph (lit ''Hi there'') normal,
          Paragraph (lit ''Skills'') heading_style,
          Paragraph [8226, 32, 80, 121, 116, 104, 111, 110] normal,
          Paragraph [8226, 32, 71, 111] normal,
          Paragraph (lit ''Education'') heading_style, Paragraph (lit ''-'') normal,
          Paragraph (lit ''Projects'') heading_style,
          Paragraph ([8226, 32] @ lit ''P1'') normal,
          Paragraph ([8226, 32] @ lit ''P2'') normal,
          Paragraph (lit ''Certifications'') heading_style, Paragraph (lit ''-'') normal,
          Paragraph (lit ''Achievements'') heading_style, Paragraph (lit ''-'') normal,
          Paragraph (lit ''Interests'') heading_style, Paragraph (lit ''-'') normal]"
  using generate_elements_sections
    [where accepts = plain_text_only and d = "generate_data lists_form_example"]
  by (simp add: lists_form_example_data doc_eval)

text \<open>
  The claim C3 as written, refuted: for the form whose only field is the about text
  \<open>"<b>bold"\<close>, which the parser refuses, no block list is emitted.
\<close>

theorem generate_elements_sections_counterexample:
  "generate_elements plain_text_only (generate_data [lit ''about'' \<mapsto> lit ''<b>bold''])
     = Inl ValueError"
  by (simp add: generate_elements_emit spec_emit_def generate_data_def form_get_def
      make_list_def py_eval doc_eval)



end
